theory Spec2Isabelle
  imports Complex_Main "HOL-Library.Sublist" "HOL-Library.Log_Nat"
begin

section \<open>JavaScript numbers\<close>

text \<open>
  The library computes with JavaScript numbers, the binary64 values of IEEE-754. A finite
  one is the rational number it stands for, next to it are the three values that are no
  rational number; negative zero is identified with zero. The functions \<open>js_add\<close>, \<open>js_sub\<close>,
  \<open>js_mul\<close>, \<open>js_div\<close> and \<open>js_rem\<close> give the exact result of an operation, and \<open>double\<close> below
  rounds an exact result to the binary64 value the operation returns. The remainder of two
  binary64 values is one and is never rounded. The Euclidean utilities divide and multiply
  integers with an integer result, which is not rounded either; the expressions of resize and
  pad are rounded after every operation.
\<close>

datatype number = Num rat | Infinity | NegInfinity | NaN

fun js_add :: "number \<Rightarrow> number \<Rightarrow> number" where
  "js_add (Num x) (Num y) = Num (x + y)"
| "js_add NaN _ = NaN"
| "js_add _ NaN = NaN"
| "js_add Infinity NegInfinity = NaN"
| "js_add NegInfinity Infinity = NaN"
| "js_add Infinity _ = Infinity"
| "js_add _ Infinity = Infinity"
| "js_add NegInfinity _ = NegInfinity"
| "js_add _ NegInfinity = NegInfinity"

fun js_sub :: "number \<Rightarrow> number \<Rightarrow> number" where
  "js_sub (Num x) (Num y) = Num (x - y)"
| "js_sub NaN _ = NaN"
| "js_sub _ NaN = NaN"
| "js_sub Infinity Infinity = NaN"
| "js_sub NegInfinity NegInfinity = NaN"
| "js_sub Infinity _ = Infinity"
| "js_sub _ NegInfinity = Infinity"
| "js_sub NegInfinity _ = NegInfinity"
| "js_sub _ Infinity = NegInfinity"

fun js_mul :: "number \<Rightarrow> number \<Rightarrow> number" where
  "js_mul (Num x) (Num y) = Num (x * y)"
| "js_mul NaN _ = NaN"
| "js_mul _ NaN = NaN"
| "js_mul Infinity (Num y) = (if y = 0 then NaN else if 0 < y then Infinity else NegInfinity)"
| "js_mul NegInfinity (Num y) = (if y = 0 then NaN else if 0 < y then NegInfinity else Infinity)"
| "js_mul (Num x) Infinity = (if x = 0 then NaN else if 0 < x then Infinity else NegInfinity)"
| "js_mul (Num x) NegInfinity = (if x = 0 then NaN else if 0 < x then NegInfinity else Infinity)"
| "js_mul Infinity Infinity = Infinity"
| "js_mul NegInfinity NegInfinity = Infinity"
| "js_mul Infinity NegInfinity = NegInfinity"
| "js_mul NegInfinity Infinity = NegInfinity"

text \<open>Division never raises: a zero divisor gives an infinity, or \<open>NaN\<close> for \<open>0 / 0\<close>.\<close>

fun js_div :: "number \<Rightarrow> number \<Rightarrow> number" where
  "js_div (Num x) (Num y) =
     (if y \<noteq> 0 then Num (x / y)
      else if x = 0 then NaN else if 0 < x then Infinity else NegInfinity)"
| "js_div (Num x) Infinity = Num 0"
| "js_div (Num x) NegInfinity = Num 0"
| "js_div Infinity (Num y) = (if y < 0 then NegInfinity else Infinity)"
| "js_div NegInfinity (Num y) = (if y < 0 then Infinity else NegInfinity)"
| "js_div Infinity Infinity = NaN"
| "js_div Infinity NegInfinity = NaN"
| "js_div NegInfinity Infinity = NaN"
| "js_div NegInfinity NegInfinity = NaN"
| "js_div NaN _ = NaN"
| "js_div _ NaN = NaN"

text \<open>The remainder \<open>a % b\<close> truncates the quotient toward zero, so it has the sign of \<open>a\<close>.\<close>

definition trunc :: "rat \<Rightarrow> int" where
  "trunc q = (if 0 \<le> q then \<lfloor>q\<rfloor> else \<lceil>q\<rceil>)"

fun js_rem :: "number \<Rightarrow> number \<Rightarrow> number" where
  "js_rem (Num x) (Num y) = (if y = 0 then NaN else Num (x - y * of_int (trunc (x / y))))"
| "js_rem (Num x) Infinity = Num x"
| "js_rem (Num x) NegInfinity = Num x"
| "js_rem _ _ = NaN"

text \<open>
  Rounding to binary64, to the nearest value and to the even one of two nearest: a finite
  value is \<open>m * 2^e\<close> with \<open>\<bar>m\<bar> < 2^53\<close> and \<open>-1074 \<le> e \<le> 971\<close>. \<open>ilog2 a\<close> is the exponent
  of the leading bit of a positive \<open>a\<close>, and \<open>rne\<close> rounds to the nearest integer, to the even
  one at a tie. A result of magnitude \<open>2^1024\<close> or more after rounding is an infinity.
\<close>

definition ilog2 :: "rat \<Rightarrow> int" where
  "ilog2 a =
     (let p = fst (quotient_of a); q = snd (quotient_of a); k = bitlen p - bitlen q
      in if 2 powi k \<le> a then k else k - 1)"

definition rne :: "rat \<Rightarrow> int" where
  "rne q =
     (let f = \<lfloor>q\<rfloor>; r = q - of_int f
      in if r < 1 / 2 then f else if 1 / 2 < r then f + 1 else if even f then f else f + 1)"

fun double :: "number \<Rightarrow> number" where
  "double (Num x) =
     (if x = 0 then Num 0
      else
        (let a = \<bar>x\<bar>;
             e = max (ilog2 a - 52) (- 1074);
             y = of_int (rne (a / 2 powi e)) * 2 powi e
         in if 2 powi 1024 \<le> y then (if 0 < x then Infinity else NegInfinity)
            else Num (sgn x * y)))"
| "double v = v"

declare double.simps [simp del]

text \<open>
  \<open>Math.round\<close> gives the nearest integer, the greater one at a tie; the integer nearest to
  a binary64 value is a binary64 value.
\<close>

fun Math_round :: "number \<Rightarrow> number" where
  "Math_round (Num x) = Num (of_int \<lfloor>x + 1 / 2\<rfloor>)"
| "Math_round v = v"

section \<open>JavaScript strings\<close>

text \<open>
  A string is the list of its characters, an index an integer. \<open>s.lastIndexOf(c)\<close> for a
  one-character search string: the last position of the character, or \<open>-1\<close>.
\<close>

fun lastIndexOf :: "string \<Rightarrow> char \<Rightarrow> int" where
  "lastIndexOf [] c = -1"
| "lastIndexOf (x # xs) c =
     (let i = lastIndexOf xs c in if 0 \<le> i then i + 1 else if x = c then 0 else -1)"

text \<open>
  \<open>s.slice(start, end)\<close>: a negative index counts from the end of the string, both are
  clamped to the string, and the result is empty when the end is not after the start.
\<close>

definition slice :: "string \<Rightarrow> int \<Rightarrow> int \<Rightarrow> string" where
  "slice s start fin =
     (let len = int (length s);
          from = (if start < 0 then max (len + start) 0 else min start len);
          to = (if fin < 0 then max (len + fin) 0 else min fin len)
      in take (nat (to - from)) (drop (nat from) s))"

text \<open>\<open>s.slice(start)\<close>: the end defaults to the length of the string.\<close>

definition slice_from :: "string \<Rightarrow> int \<Rightarrow> string" where
  "slice_from s start = slice s start (int (length s))"

text \<open>
  \<open>s.replace(pattern, replacement)\<close> with a string pattern replaces the first occurrence
  only. (The replacement used by the library has no \<open>$\<close> pattern.)
\<close>

fun replace :: "string \<Rightarrow> string \<Rightarrow> string \<Rightarrow> string" where
  "replace [] pat rep = (if pat = [] then rep else [])"
| "replace (c # cs) pat rep =
     (if prefix pat (c # cs) then rep @ drop (length pat) (c # cs)
      else c # replace cs pat rep)"

section \<open>The utilities of dist/curtail.js\<close>

text \<open>
  The file descriptor and the format descriptor both have the property \<open>ext\<close>: it is the
  field of a record that both extend.
\<close>

record extension =
  ext :: string

record fileInfo = extension +
  name :: string

definition getFileInfo :: "string \<Rightarrow> fileInfo" where
  "getFileInfo src =
     (let nameIndex = (if lastIndexOf src CHR ''/'' > -1 then lastIndexOf src CHR ''/'' else 0);
          extIndex = lastIndexOf src CHR ''.''
      in \<lparr>ext = slice_from src (extIndex + 1), name = slice src (nameIndex + 1) extIndex\<rparr>)"

text \<open>
  The loop of \<open>gcd\<close> runs while \<open>b !== 0\<close>, which holds for \<open>NaN\<close> forever: not returning is
  the value \<open>None\<close>.
\<close>

partial_function (option) gcd_js :: "number \<Rightarrow> number \<Rightarrow> number option" where
  "gcd_js a b = (if b \<noteq> Num 0 then gcd_js b (js_rem a b) else Some a)"

declare gcd_js.simps [code]

definition simplify :: "number \<Rightarrow> number \<Rightarrow> (number \<times> number) option" where
  "simplify numerator denominator =
     (case gcd_js numerator denominator of
        None \<Rightarrow> None
      | Some num \<Rightarrow> Some (js_div numerator num, js_div denominator num))"

section \<open>The host platform\<close>

text \<open>
  Images, the drawing surface and promises belong to the browser. An image element and a
  canvas are records that hold what the code assigns to them (the conversion of an assigned
  dimension to an unsigned integer is the browser's and is not modelled); the canvas also
  keeps, in order, the calls made on it and on its 2D context. What the browser decides is
  a parameter of every operation: whether an image with a given \<open>src\<close> and \<open>crossOrigin\<close>
  loads (and with which natural dimensions) or fires its error event (with which error
  object), and the string \<open>toDataURL\<close> returns for a canvas and a requested type.
\<close>

record sized =
  width :: number
  height :: number

record image = sized +
  src :: string

datatype call =
    FillRect string number number number number
  | DrawImage image "number list"
  | ToDataURL string

record canvas = sized +
  fillStyle :: string
  calls :: "call list"

record 'e host =
  load :: "string \<Rightarrow> string option \<Rightarrow> 'e + nat \<times> nat"
  toDataURL :: "canvas \<Rightarrow> string \<Rightarrow> string"

text \<open>
  How the promise of an operation ends. \<open>Threw v\<close>: a listener raised a ReferenceError on
  the unbound identifier \<open>v\<close> before it reached \<open>resolve\<close> or \<open>reject\<close>; \<open>Diverged\<close>: the listener
  never returns. In both the promise stays pending for ever.
\<close>

datatype 'e settlement = Resolved image | Rejected 'e | Threw string | Diverged

text \<open>
  What a call of an operation leaves behind: the promise it returns (\<open>None\<close> when it returns
  \<open>undefined\<close> or does not return), the unbound identifier on which the call itself raised a
  ReferenceError instead of returning (\<open>None\<close> when it returned), the canvas it created, the
  source image element once loaded, the values it assigned to the \<open>src\<close> of image elements
  (in order), the download links it clicked (\<open>href\<close>, \<open>download\<close>) and the console warnings.
\<close>

record 'e run =
  promise :: "'e settlement option"
  raised :: "string option"
  surface :: "canvas option"
  original :: "image option"
  requested :: "string list"
  downloads :: "(string \<times> string) list"
  warnings :: "string list"

definition nothing :: "'e run" where
  "nothing = \<lparr>promise = None, raised = None, surface = None, original = None,
                requested = [], downloads = [], warnings = []\<rparr>"

text \<open>\<open>document.createElement('canvas')\<close>: the default surface.\<close>

definition createElement_canvas :: canvas where
  "createElement_canvas =
     \<lparr>width = Num 300, height = Num 150, fillStyle = ''#000000'', calls = []\<rparr>"

text \<open>
  An image element after its load event: its dimensions are the natural ones, which the
  browser gives as unsigned 32-bit integers, binary64 values all.
\<close>

definition loaded :: "string \<Rightarrow> nat \<times> nat \<Rightarrow> image" where
  "loaded s dims = \<lparr>width = Num (of_nat (fst dims)), height = Num (of_nat (snd dims)), src = s\<rparr>"

definition fillRect :: "canvas \<Rightarrow> number \<Rightarrow> number \<Rightarrow> number \<Rightarrow> number \<Rightarrow> canvas" where
  "fillRect c x y w h = c\<lparr>calls := calls c @ [FillRect (fillStyle c) x y w h]\<rparr>"

definition drawImage :: "canvas \<Rightarrow> image \<Rightarrow> number list \<Rightarrow> canvas" where
  "drawImage c img args = c\<lparr>calls := calls c @ [DrawImage img args]\<rparr>"

definition encoded :: "canvas \<Rightarrow> string \<Rightarrow> canvas" where
  "encoded c type = c\<lparr>calls := calls c @ [ToDataURL type]\<rparr>"

record options =
  autoDownload :: bool
  crossOrigin :: "string option"

text \<open>\<open>if (options.crossOrigin)\<close>: \<open>null\<close> and the empty string are falsy.\<close>

definition truthy :: "string option \<Rightarrow> string option" where
  "truthy v = (case v of None \<Rightarrow> None | Some s \<Rightarrow> if s = [] then None else Some s)"

section \<open>The class Curtail of dist/curtail.js\<close>

text \<open>
  The options are \<open>this._options\<close>, the defaults merged with whatever object the constructor
  was given.

  \<open>convert\<close> calls \<open>extract.getFileInfo\<close> and the load listener of \<open>resize\<close> calls
  \<open>math.simplify\<close>. No scope of the file binds \<open>extract\<close> or \<open>math\<close> (the functions \<open>getFileInfo\<close>
  and \<open>simplify\<close> of the file are bound under their own names only), so the two names are
  looked up in the global environment of the page, which is a parameter: \<open>None\<close> for a name
  that is unbound, whose evaluation raises a ReferenceError, and otherwise the function
  behind \<open>extract.getFileInfo\<close> or \<open>math.simplify\<close>. \<open>unbound\<close> is the environment of the file
  on its own, which binds neither.
\<close>

record globals =
  global_extract :: "(string \<Rightarrow> fileInfo) option"
  global_math :: "(number \<Rightarrow> number \<Rightarrow> (number \<times> number) option) option"

definition unbound :: globals where
  "unbound = \<lparr>global_extract = None, global_math = None\<rparr>"

record format = extension +
  transparent :: bool

definition PNG :: format where "PNG = \<lparr>ext = ''png'', transparent = True\<rparr>"
definition JPG :: format where "JPG = \<lparr>ext = ''jpg'', transparent = False\<rparr>"
definition GIF :: format where "GIF = \<lparr>ext = ''gif'', transparent = False\<rparr>"
definition BMP :: format where "BMP = \<lparr>ext = ''bmp'', transparent = False\<rparr>"
definition WEBP :: format where "WEBP = \<lparr>ext = ''webp'', transparent = True\<rparr>"
definition PDF :: format where "PDF = \<lparr>ext = ''pdf'', transparent = True\<rparr>"

definition FORMAT :: "format list" where
  "FORMAT = [PNG, JPG, GIF, BMP, WEBP, PDF]"

definition Curtail_crop ::
  "'e host \<Rightarrow> 'a options_scheme \<Rightarrow> string \<Rightarrow> number \<Rightarrow> number \<Rightarrow> number \<Rightarrow> number \<Rightarrow> 'e run" where
  "Curtail_crop host opts src' x y width' height' =
     (let canvas = createElement_canvas;
          nameIndex = (if lastIndexOf src' CHR ''/'' + 1 = 0 then 0
                       else lastIndexOf src' CHR ''/'' + 1);
          extIndex = lastIndexOf src' CHR ''.'';
          srcName = slice src' nameIndex extIndex;
          srcExt = slice_from src' (extIndex + 1)
      in case load host src' (truthy (crossOrigin opts)) of
           Inl err \<Rightarrow> nothing\<lparr>promise := Some (Rejected err), surface := Some canvas,
                              requested := [src']\<rparr>
         | Inr dims \<Rightarrow>
             (let originalImage = loaded src' dims;
                  canvas = canvas\<lparr>width := width', height := height'\<rparr>;
                  canvas = drawImage canvas originalImage
                             [x, y, width', height', Num 0, Num 0, width', height'];
                  url = replace (toDataURL host canvas (''image/'' @ srcExt))
                          (''image/'' @ srcExt) ''image/octet-stream'';
                  canvas = encoded canvas (''image/'' @ srcExt);
                  r = nothing\<lparr>surface := Some canvas, original := Some originalImage,
                              requested := [src', url]\<rparr>
              in case load host url None of
                   Inl err \<Rightarrow> r\<lparr>promise := Some (Rejected err)\<rparr>
                 | Inr dims' \<Rightarrow>
                     (let croppedImage = loaded url dims'
                      in r\<lparr>promise := Some (Resolved croppedImage),
                           downloads := (if autoDownload opts
                                         then [(src croppedImage, srcName @ ''.'' @ srcExt)]
                                         else [])\<rparr>)))"

definition Curtail_convert ::
  "globals \<Rightarrow> 'e host \<Rightarrow> 'a options_scheme \<Rightarrow> string \<Rightarrow> format \<Rightarrow> 'e run" where
  "Curtail_convert env host opts src' format =
     (case global_extract env of
        None \<Rightarrow> nothing\<lparr>raised := Some ''extract''\<rparr>
      | Some extract_getFileInfo \<Rightarrow>
     (let fileInfo = extract_getFileInfo src'
      in if ext fileInfo = ext format
         then nothing\<lparr>warnings := [''Image is already in desired format.'']\<rparr>
         else
           (let canvas = createElement_canvas
            in case load host src' (truthy (crossOrigin opts)) of
                 Inl err \<Rightarrow> nothing\<lparr>promise := Some (Rejected err), surface := Some canvas,
                              requested := [src']\<rparr>
               | Inr dims \<Rightarrow>
                   (let originalImage = loaded src' dims;
                        canvas = canvas\<lparr>width := width originalImage,
                                        height := height originalImage\<rparr>;
                        canvas = (if \<not> transparent format
                                  then fillRect (canvas\<lparr>fillStyle := ''#FFF''\<rparr>)
                                         (Num 0) (Num 0) (width canvas) (height canvas)
                                  else canvas);
                        canvas = drawImage canvas originalImage [Num 0, Num 0];
                        url = toDataURL host canvas (''image/'' @ ext format);
                        canvas = encoded canvas (''image/'' @ ext format);
                        r = nothing\<lparr>surface := Some canvas, original := Some originalImage,
                              requested := [src', url]\<rparr>
                    in case load host url None of
                         Inl err \<Rightarrow> r\<lparr>promise := Some (Rejected err)\<rparr>
                       | Inr dims' \<Rightarrow>
                           (let newImage = loaded url dims'
                            in r\<lparr>promise := Some (Resolved newImage),
                                 downloads := (if autoDownload opts
                                               then [(src newImage,
                                                      name fileInfo @ ''.'' @ ext format)]
                                               else [])\<rparr>)))))"

definition Curtail_resize ::
  "globals \<Rightarrow> 'e host \<Rightarrow> 'a options_scheme \<Rightarrow> string \<Rightarrow> string \<Rightarrow> number \<Rightarrow> bool \<Rightarrow> 'e run" where
  "Curtail_resize env host opts src' dimension size' preserveAspectRatio =
     (case load host src' (truthy (crossOrigin opts)) of
        Inl err \<Rightarrow> nothing\<lparr>promise := Some (Rejected err), requested := [src']\<rparr>
      | Inr dims \<Rightarrow>
          (let image = loaded src' dims
           in case global_math env of
                None \<Rightarrow> nothing\<lparr>promise := Some (Threw ''math''), original := Some image,
                                requested := [src']\<rparr>
              | Some math_simplify \<Rightarrow>
           (case math_simplify (width image) (height image) of
                None \<Rightarrow> nothing\<lparr>promise := Some Diverged, original := Some image,
                                requested := [src']\<rparr>
              | Some aspectRatio \<Rightarrow>
                  (let image =
                         (if dimension = ''width'' then
                            (let image = image\<lparr>width := size'\<rparr>
                             in if preserveAspectRatio
                                then image\<lparr>height := Math_round
                                       (double (js_mul
                                          (double (js_div (snd aspectRatio) (fst aspectRatio)))
                                          size'))\<rparr>
                                else image)
                          else if dimension = ''height'' then
                            (let image = image\<lparr>height := size'\<rparr>
                             in if preserveAspectRatio
                                then image\<lparr>width := Math_round
                                       (double (js_mul
                                          (double (js_div (fst aspectRatio) (snd aspectRatio)))
                                          size'))\<rparr>
                                else image)
                          else image)
                   in nothing\<lparr>promise := Some (Resolved image), original := Some image,
                              requested := [src']\<rparr>))))"

section \<open>The functions crop, convert, resize and pad of the library module\<close>

text \<open>
  The module takes \<open>extractFileInfo\<close> and \<open>simplify\<close> from \<open>./utils.js\<close>, which is not among the
  sources: the two are parameters here. \<open>utils.simplify\<close> gives the fraction as an object
  with a numerator and a denominator (\<open>None\<close>: it does not return).
\<close>

record fraction =
  numerator :: number
  denominator :: number

record utils =
  extractFileInfo :: "string \<Rightarrow> fileInfo"
  utils_simplify :: "number \<Rightarrow> number \<Rightarrow> fraction option"

record resize_options = options +
  preserveAspectRatio :: bool

record pad_options = options +
  paddingColor :: string

text \<open>
  In \<open>crop\<close>, the error listener of the cropped image names \<open>loadCroppedImage\<close>, which is
  bound only inside the load listener of that image: evaluating it raises a
  ReferenceError before \<open>reject\<close> is reached.
\<close>

definition crop ::
  "utils \<Rightarrow> 'e host \<Rightarrow> string \<Rightarrow> number \<Rightarrow> number \<Rightarrow> number \<Rightarrow> number \<Rightarrow> options \<Rightarrow> 'e run" where
  "crop utils host path x y width' height' opts =
     (let canvas = createElement_canvas;
          fileInfo = extractFileInfo utils path
      in case load host path (truthy (crossOrigin opts)) of
           Inl err \<Rightarrow> nothing\<lparr>promise := Some (Rejected err), surface := Some canvas,
                              requested := [path]\<rparr>
         | Inr dims \<Rightarrow>
             (let originalImage = loaded path dims;
                  canvas = canvas\<lparr>width := width', height := height'\<rparr>;
                  canvas = drawImage canvas originalImage
                             [x, y, width', height', Num 0, Num 0, width', height'];
                  url = replace (toDataURL host canvas (''image/'' @ ext fileInfo))
                          (''image/'' @ ext fileInfo) ''image/octet-stream'';
                  canvas = encoded canvas (''image/'' @ ext fileInfo);
                  r = nothing\<lparr>surface := Some canvas, original := Some originalImage,
                              requested := [path, url]\<rparr>
              in case load host url None of
                   Inl err \<Rightarrow> r\<lparr>promise := Some (Threw ''loadCroppedImage'')\<rparr>
                 | Inr dims' \<Rightarrow>
                     (let croppedImage = loaded url dims'
                      in r\<lparr>promise := Some (Resolved croppedImage),
                           downloads := (if autoDownload opts
                                         then [(src croppedImage,
                                                name fileInfo @ ''.'' @ ext fileInfo)]
                                         else [])\<rparr>)))"

definition nonTransparentFormats :: "string list" where
  "nonTransparentFormats = [''jpg'', ''jpeg'', ''gif'', ''bmp'']"

definition convert :: "utils \<Rightarrow> 'e host \<Rightarrow> string \<Rightarrow> string \<Rightarrow> options \<Rightarrow> 'e run" where
  "convert utils host path format opts =
     (let fileInfo = extractFileInfo utils path
      in if ext fileInfo = format then nothing
         else
           (let canvas = createElement_canvas
            in case load host path (truthy (crossOrigin opts)) of
                 Inl err \<Rightarrow> nothing\<lparr>promise := Some (Rejected err), surface := Some canvas,
                              requested := [path]\<rparr>
               | Inr dims \<Rightarrow>
                   (let originalImage = loaded path dims;
                        canvas = canvas\<lparr>width := width originalImage,
                                        height := height originalImage\<rparr>;
                        canvas = (if List.member nonTransparentFormats format
                                  then fillRect (canvas\<lparr>fillStyle := ''#FFF''\<rparr>)
                                         (Num 0) (Num 0) (width canvas) (height canvas)
                                  else canvas);
                        canvas = drawImage canvas originalImage [Num 0, Num 0];
                        url = toDataURL host canvas (''image/'' @ format);
                        canvas = encoded canvas (''image/'' @ format);
                        r = nothing\<lparr>surface := Some canvas, original := Some originalImage,
                              requested := [path, url]\<rparr>
                    in case load host url None of
                         Inl err \<Rightarrow> r\<lparr>promise := Some (Rejected err)\<rparr>
                       | Inr dims' \<Rightarrow>
                           (let convertedImage = loaded url dims'
                            in r\<lparr>promise := Some (Resolved convertedImage),
                                 downloads := (if autoDownload opts
                                               then [(src convertedImage,
                                                      name fileInfo @ ''.'' @ format)]
                                               else [])\<rparr>))))"

text \<open>
  In \<open>resize\<close>, the \<open>autoDownload\<close> branch reads \<open>convertedImage\<close>, which no scope of the
  function binds: a ReferenceError, after the dimensions are set and before \<open>resolve\<close>.
\<close>

definition resize ::
  "utils \<Rightarrow> 'e host \<Rightarrow> string \<Rightarrow> string \<Rightarrow> number \<Rightarrow> resize_options \<Rightarrow> 'e run" where
  "resize utils host path dimension size' opts =
     (case load host path (truthy (crossOrigin opts)) of
        Inl err \<Rightarrow> nothing\<lparr>promise := Some (Rejected err), requested := [path]\<rparr>
      | Inr dims \<Rightarrow>
          (let originalImage = loaded path dims
           in case utils_simplify utils (width originalImage) (height originalImage) of
                None \<Rightarrow> nothing\<lparr>promise := Some Diverged, original := Some originalImage,
                                requested := [path]\<rparr>
              | Some aspectRatio \<Rightarrow>
                  (let originalImage =
                         (if dimension = ''width'' then
                            (let originalImage = originalImage\<lparr>width := size'\<rparr>
                             in if preserveAspectRatio opts
                                then originalImage\<lparr>height := Math_round
                                       (double (js_mul
                                          (double (js_div (denominator aspectRatio)
                                                     (numerator aspectRatio)))
                                          size'))\<rparr>
                                else originalImage)
                          else if dimension = ''height'' then
                            (let originalImage = originalImage\<lparr>height := size'\<rparr>
                             in if preserveAspectRatio opts
                                then originalImage\<lparr>width := Math_round
                                       (double (js_mul
                                          (double (js_div (numerator aspectRatio)
                                                     (denominator aspectRatio)))
                                          size'))\<rparr>
                                else originalImage)
                          else originalImage);
                       r = nothing\<lparr>original := Some originalImage, requested := [path]\<rparr>
                   in if autoDownload opts
                      then r\<lparr>promise := Some (Threw ''convertedImage'')\<rparr>
                      else r\<lparr>promise := Some (Resolved originalImage)\<rparr>)))"

text \<open>
  In \<open>pad\<close>, the \<open>autoDownload\<close> branch builds the file name from \<open>format\<close>, which no scope of
  the function binds: a ReferenceError, before the link is clicked and before \<open>resolve\<close>.
\<close>

definition pad :: "utils \<Rightarrow> 'e host \<Rightarrow> string \<Rightarrow> number \<Rightarrow> pad_options \<Rightarrow> 'e run" where
  "pad utils host path padding opts =
     (let canvas = createElement_canvas;
          fileInfo = extractFileInfo utils path
      in case load host path (truthy (crossOrigin opts)) of
           Inl err \<Rightarrow> nothing\<lparr>promise := Some (Rejected err), surface := Some canvas,
                              requested := [path]\<rparr>
         | Inr dims \<Rightarrow>
             (let originalImage = loaded path dims;
                  canvas = canvas\<lparr>width := double (js_add (width originalImage)
                                                     (double (js_mul padding (Num 2))))\<rparr>;
                  canvas = canvas\<lparr>height := double (js_add (height originalImage)
                                                      (double (js_mul padding (Num 2))))\<rparr>;
                  canvas = (if paddingColor opts \<noteq> ''transparent''
                            then fillRect (canvas\<lparr>fillStyle := paddingColor opts\<rparr>)
                                   (Num 0) (Num 0) (width canvas) (height canvas)
                            else canvas);
                  canvas = drawImage canvas originalImage
                             [double (js_sub (double (js_div (width canvas) (Num 2)))
                                        (double (js_div (width originalImage) (Num 2)))),
                              double (js_sub (double (js_div (height canvas) (Num 2)))
                                        (double (js_div (height originalImage) (Num 2)))),
                              width originalImage, height originalImage];
                  url = toDataURL host canvas (''image/'' @ ext fileInfo);
                  canvas = encoded canvas (''image/'' @ ext fileInfo);
                  r = nothing\<lparr>surface := Some canvas, original := Some originalImage,
                              requested := [path, url]\<rparr>
              in case load host url None of
                   Inl err \<Rightarrow> r\<lparr>promise := Some (Rejected err)\<rparr>
                 | Inr dims' \<Rightarrow>
                     (if autoDownload opts
                      then r\<lparr>promise := Some (Threw ''format'')\<rparr>
                      else r\<lparr>promise := Some (Resolved (loaded url dims'))\<rparr>)))"

section \<open>Instances\<close>

text \<open>
  The utilities of dist/curtail.js in the shape the library module expects of
  \<open>./utils.js\<close>, and three hosts: one on which every image loads (the source with the
  first size, a data URI with the second) and the encoder declares the requested type; one
  on which data URIs fail to load (a \<open>0 \<times> 0\<close> canvas encodes to \<open>data:,\<close>, which is no
  image); and one whose encoder knows PNG, JPEG and WebP and falls back to PNG for any
  other requested type, as browsers do.
\<close>

definition bundled_utils :: utils where
  "bundled_utils =
     \<lparr>extractFileInfo = getFileInfo,
      utils_simplify = (\<lambda>a b. case simplify a b of
                                 None \<Rightarrow> None
                               | Some (n, d) \<Rightarrow> Some \<lparr>numerator = n, denominator = d\<rparr>)\<rparr>"

definition honest_host :: "nat \<times> nat \<Rightarrow> nat \<times> nat \<Rightarrow> string host" where
  "honest_host dims dims' =
     \<lparr>load = (\<lambda>s co. if prefix ''data:'' s then Inr dims' else Inr dims),
      toDataURL = (\<lambda>c t. ''data:'' @ t @ '';base64,AAAA'')\<rparr>"

definition undecodable_host :: "nat \<times> nat \<Rightarrow> string host" where
  "undecodable_host dims =
     \<lparr>load = (\<lambda>s co. if prefix ''data:'' s then Inl ''error event'' else Inr dims),
      toDataURL = (\<lambda>c t. ''data:,'')\<rparr>"

definition png_fallback_host :: "nat \<times> nat \<Rightarrow> string host" where
  "png_fallback_host dims =
     \<lparr>load = (\<lambda>s co. Inr dims),
      toDataURL = (\<lambda>c t. if List.member [''image/png'', ''image/jpeg'', ''image/webp''] t
                          then ''data:'' @ t @ '';base64,AAAA''
                          else ''data:image/png;base64,AAAA'')\<rparr>"

section \<open>Arithmetic of the Euclidean loop\<close>

lemma trunc_of_nat_div: "trunc (of_nat a / of_nat b) = int (a div b)"
  by (simp add: trunc_def floor_divide_of_nat_eq)

lemma js_rem_nat:
  assumes "b \<noteq> 0"
  shows "js_rem (Num (of_nat a)) (Num (of_nat b)) = Num (of_nat (a mod b))"
proof -
  have "a = b * (a div b) + a mod b" by simp
  then have "(of_nat a :: rat) = of_nat (b * (a div b) + a mod b)" by simp
  then have "(of_nat a :: rat) = of_nat b * of_nat (a div b) + of_nat (a mod b)"
    by (simp only: of_nat_add of_nat_mult)
  then have "(of_nat a :: rat) - of_nat b * of_nat (a div b) = of_nat (a mod b)"
    by simp
  with assms show ?thesis
    by (simp add: trunc_of_nat_div)
qed

text \<open>On the natural numbers the loop returns, and returns the greatest common divisor.\<close>

lemma gcd_js_nat: "gcd_js (Num (of_nat a)) (Num (of_nat b)) = Some (Num (of_nat (gcd a b)))"
proof (induction b arbitrary: a rule: less_induct)
  case (less b)
  show ?case
  proof (cases "b = 0")
    case True
    then show ?thesis by (subst gcd_js.simps) simp
  next
    case False
    then have lt: "a mod b < b" by simp
    have "gcd_js (Num (of_nat a)) (Num (of_nat b)) =
          gcd_js (Num (of_nat b)) (Num (of_nat (a mod b)))"
      using False by (subst gcd_js.simps) (simp add: js_rem_nat del: js_rem.simps)
    also have "\<dots> = Some (Num (of_nat (gcd b (a mod b))))"
      by (rule less.IH [OF lt])
    also have "gcd b (a mod b) = gcd a b"
      by (rule gcd_red_nat [symmetric])
    finally show ?thesis .
  qed
qed

lemma of_nat_div_exact:
  assumes "d dvd a" and "d \<noteq> 0"
  shows "(of_nat a :: rat) / of_nat d = of_nat (a div d)"
proof -
  from assms(1) obtain k where "a = d * k" ..
  with assms(2) show ?thesis by simp
qed

lemma js_div_exact:
  assumes "d dvd a" and "d \<noteq> 0"
  shows "js_div (Num (of_nat a)) (Num (of_nat d)) = Num (of_nat (a div d))"
  using assms by (simp add: of_nat_div_exact)

lemma simplify_nat:
  assumes "0 < a \<or> 0 < b"
  shows "simplify (Num (of_nat a)) (Num (of_nat b)) =
         Some (Num (of_nat (a div gcd a b)), Num (of_nat (b div gcd a b)))"
proof -
  have g: "gcd a b \<noteq> 0" using assms by auto
  have n: "js_div (Num (of_nat a)) (Num (of_nat (gcd a b))) = Num (of_nat (a div gcd a b))"
    by (rule js_div_exact [OF gcd_dvd1 g])
  have d: "js_div (Num (of_nat b)) (Num (of_nat (gcd a b))) = Num (of_nat (b div gcd a b))"
    by (rule js_div_exact [OF gcd_dvd2 g])
  show ?thesis
    by (simp add: simplify_def gcd_js_nat n d del: js_div.simps)
qed

text \<open>On natural numbers \<open>simplify\<close> always returns.\<close>

lemma floor_rat_numeral: "\<lfloor>(numeral a :: rat) / numeral b\<rfloor> = numeral a div numeral b"
  by (metis floor_divide_of_int_eq of_int_numeral)

lemma simplify_returns:
  "simplify (Num (of_nat w)) (Num (of_nat h)) =
     Some (js_div (Num (of_nat w)) (Num (of_nat (gcd w h))),
           js_div (Num (of_nat h)) (Num (of_nat (gcd w h))))"
  by (simp add: simplify_def gcd_js_nat del: js_div.simps)

lemma simplify_100_50: "simplify (Num 100) (Num 50) = Some (Num 2, Num 1)"
  by (simp add: simplify_def gcd_js.simps trunc_def)

section \<open>Aspect-ratio simplification\<close>

text \<open>
  C1. For all positive integers \<open>a\<close> and \<open>b\<close>, the Euclidean loop of \<open>gcd\<close> returns the
  greatest common divisor \<open>g\<close>, and \<open>simplify(a, b)\<close> returns the pair \<open>(a/g, b/g)\<close>. The pair
  has the ratio of \<open>(a, b)\<close>, and its components are coprime: their greatest common divisor
  is 1, also as \<open>gcd\<close> itself computes it.
\<close>

theorem simplify_lowest_terms:
  fixes a b :: nat
  assumes "0 < a" and "0 < b"
  shows "gcd_js (Num (of_nat a)) (Num (of_nat b)) = Some (Num (of_nat (gcd a b)))
       \<and> simplify (Num (of_nat a)) (Num (of_nat b)) =
           Some (Num (of_nat (a div gcd a b)), Num (of_nat (b div gcd a b)))
       \<and> (of_nat (a div gcd a b) :: rat) / of_nat (b div gcd a b) = of_nat a / of_nat b
       \<and> gcd (a div gcd a b) (b div gcd a b) = 1
       \<and> gcd_js (Num (of_nat (a div gcd a b))) (Num (of_nat (b div gcd a b))) = Some (Num 1)"
proof -
  let ?g = "gcd a b"
  have g: "?g \<noteq> 0" using assms by simp
  have a: "a = (a div ?g) * ?g" and b: "b = (b div ?g) * ?g" by simp_all
  have "(of_nat a :: rat) / of_nat b = of_nat ((a div ?g) * ?g) / of_nat ((b div ?g) * ?g)"
    using a b by simp
  also have "\<dots> = of_nat (a div ?g) / of_nat (b div ?g)"
    using g by (simp only: of_nat_mult) simp
  finally have ratio: "(of_nat (a div ?g) :: rat) / of_nat (b div ?g) = of_nat a / of_nat b"
    by simp
  have cop: "gcd (a div ?g) (b div ?g) = 1"
    using g by (simp add: div_gcd_coprime)
  have "gcd_js (Num (of_nat (a div ?g))) (Num (of_nat (b div ?g))) = Some (Num 1)"
    by (simp only: gcd_js_nat cop of_nat_1)
  with assms show ?thesis
    using ratio cop by (simp only: gcd_js_nat simplify_nat simp_thms)
qed

theorem simplify_lowest_terms_witness:
  "(0::nat) < 100 \<and> (0::nat) < 50 \<and> gcd_js (Num 100) (Num 50) = Some (Num 50)
   \<and> simplify (Num 100) (Num 50) = Some (Num 2, Num 1)
   \<and> gcd_js (Num 2) (Num 1) = Some (Num 1)"
  using simplify_lowest_terms [of 100 50] by simp

text \<open>
  C8. For all positive integers \<open>a\<close> and \<open>b\<close> with \<open>g = gcd(a, b)\<close>, multiplying each component
  of \<open>simplify(a, b)\<close> by \<open>g\<close> gives \<open>a\<close> and \<open>b\<close> back.
\<close>

theorem simplify_roundtrip:
  fixes a b :: nat
  assumes "0 < a" and "0 < b"
  shows "\<exists>g n d. gcd_js (Num (of_nat a)) (Num (of_nat b)) = Some g
           \<and> g = Num (of_nat (gcd a b))
           \<and> simplify (Num (of_nat a)) (Num (of_nat b)) = Some (n, d)
           \<and> js_mul n g = Num (of_nat a) \<and> js_mul d g = Num (of_nat b)"
proof -
  have "(of_nat (a div gcd a b) :: rat) * of_nat (gcd a b) = of_nat a"
    by (simp only: flip: of_nat_mult) simp
  moreover have "(of_nat (b div gcd a b) :: rat) * of_nat (gcd a b) = of_nat b"
    by (simp only: flip: of_nat_mult) simp
  ultimately show ?thesis
    using assms by (simp add: gcd_js_nat simplify_nat)
qed

theorem simplify_roundtrip_witness:
  "\<exists>n d. simplify (Num 100) (Num 50) = Some (n, d)
      \<and> js_mul n (Num 50) = Num 100 \<and> js_mul d (Num 50) = Num 50"
  using simplify_roundtrip [of 100 50] by simp

section \<open>File descriptor extraction\<close>

text \<open>With a slash in the locator the name and the extension are the expected ones.\<close>

lemma getFileInfo_with_folder:
  "getFileInfo ''folder/img.png'' = \<lparr>ext = ''png'', name = ''img''\<rparr>"
  by (simp add: getFileInfo_def slice_def slice_from_def)

text \<open>
  C2. The extension is the substring after the last \<open>'.'\<close>, and the name runs from the
  character after the last \<open>'/'\<close> (from position 0 when there is none) to the last \<open>'.'\<close>:
  \<open>{name: "img", extension: "png"}\<close> for \<open>"img.png"\<close>. In the code, without a slash
  \<open>getFileInfo\<close> leaves \<open>nameIndex\<close> at 0 and still slices from \<open>nameIndex + 1\<close>, so the name
  loses its first character.
\<close>

theorem getFileInfo_drops_first_character:
  "getFileInfo ''img.png'' = \<lparr>ext = ''png'', name = ''mg''\<rparr>
   \<and> name (getFileInfo ''img.png'') \<noteq> ''img''"
  by (simp add: getFileInfo_def slice_def slice_from_def)

section \<open>Rounding to binary64\<close>

lemma rne_of_int: "rne (of_int n) = n"
  by (simp add: rne_def)

lemma bitlen_powi:
  assumes "0 < (n::int)"
  shows "(2::rat) powi (bitlen n - 1) \<le> of_int n" and "(of_int n :: rat) < 2 powi bitlen n"
proof -
  from assms have b: "1 \<le> bitlen n" by (auto simp: bitlen_alt_def)
  from bitlen_bounds [OF assms] have 1: "2 ^ nat (bitlen n - 1) \<le> n" and 2: "n < 2 ^ nat (bitlen n)"
    by simp_all
  from 1 have "(of_int (2 ^ nat (bitlen n - 1)) :: rat) \<le> of_int n" by (simp only: of_int_le_iff)
  with b show "(2::rat) powi (bitlen n - 1) \<le> of_int n" by (simp add: power_int_def)
  from 2 have "(of_int n :: rat) < of_int (2 ^ nat (bitlen n))" by (simp only: of_int_less_iff)
  with b show "(of_int n :: rat) < 2 powi bitlen n" by (simp add: power_int_def)
qed

text \<open>\<open>ilog2\<close> is the exponent of the leading bit.\<close>

lemma ilog2_bounds:
  assumes "0 < a"
  shows "2 powi ilog2 a \<le> a" and "a < 2 powi (ilog2 a + 1)"
proof -
  obtain p q where pq: "quotient_of a = (p, q)" by (cases "quotient_of a")
  then have q: "0 < q" and a: "a = of_int p / of_int q"
    by (auto dest: quotient_of_denom_pos quotient_of_div)
  with assms have p: "0 < p" by (simp add: zero_less_divide_iff)
  let ?k = "bitlen p - bitlen q"
  have lo: "2 powi (?k - 1) \<le> a"
  proof -
    have "(2::rat) powi (?k - 1) = 2 powi (bitlen p - 1) / 2 powi bitlen q"
      by (simp add: power_int_diff)
    also have "\<dots> \<le> of_int p / 2 powi bitlen q"
      using bitlen_powi(1) [OF p] by (simp add: divide_right_mono)
    also have "\<dots> \<le> of_int p / of_int q"
      using bitlen_powi(2) [OF q] p q by (simp add: frac_le)
    finally show ?thesis by (simp add: a)
  qed
  have hi: "a < 2 powi (?k + 1)"
  proof -
    have "a = of_int p / of_int q" by (rule a)
    also have "\<dots> < 2 powi bitlen p / of_int q"
      using bitlen_powi(2) [OF p] q by (simp add: divide_strict_right_mono)
    also have "\<dots> \<le> 2 powi bitlen p / 2 powi (bitlen q - 1)"
      using bitlen_powi(1) [OF q] by (simp add: frac_le)
    also have "\<dots> = 2 powi (?k + 1)"
      by (simp add: power_int_diff power_int_add)
    finally show ?thesis .
  qed
  show "2 powi ilog2 a \<le> a"
    using lo by (simp add: ilog2_def pq Let_def)
  show "a < 2 powi (ilog2 a + 1)"
    using hi by (auto simp add: ilog2_def pq Let_def not_le)
qed

lemma ilog2_less:
  assumes "0 < a" and "a < 2 powi n"
  shows "ilog2 a < n"
proof (rule ccontr)
  assume "\<not> ilog2 a < n"
  then have "(2::rat) powi n \<le> 2 powi ilog2 a" by (simp add: power_int_increasing)
  with ilog2_bounds(1) [OF assms(1)] assms(2) show False by simp
qed

text \<open>A value \<open>m * 2^j\<close> with \<open>\<bar>m\<bar> < 2^53\<close> and an exponent in range is not changed by rounding.\<close>

lemma double_exact:
  assumes m: "\<bar>m\<bar> < 2 ^ 53" and j: "- 1074 \<le> j" "j \<le> 971"
  shows "double (Num (of_int m * 2 powi j)) = Num (of_int m * 2 powi j)"
proof (cases "m = 0")
  case True
  then show ?thesis by (simp add: double.simps)
next
  case False
  let ?x = "of_int m * (2::rat) powi j"
  let ?a = "\<bar>?x\<bar>"
  let ?e = "max (ilog2 ?a - 52) (- 1074)"
  have x0: "?x \<noteq> 0" using False by simp
  have a: "?a = of_int \<bar>m\<bar> * 2 powi j" by (simp add: abs_mult)
  have apos: "0 < ?a" using x0 by simp
  have "of_int \<bar>m\<bar> < (2::rat) ^ 53" using m by (metis of_int_less_numeral_power_cancel_iff)
  then have "?a < 2 powi 53 * 2 powi j" unfolding a by (simp add: mult_strict_right_mono)
  then have lt: "?a < 2 powi (53 + j)" by (simp add: power_int_add)
  then have "ilog2 ?a < 53 + j" by (rule ilog2_less [OF apos])
  with j have e: "?e \<le> j" by simp
  have "?a / 2 powi ?e = of_int \<bar>m\<bar> * 2 powi (j - ?e)"
    unfolding a by (simp add: power_int_diff)
  also have "\<dots> = of_int (\<bar>m\<bar> * 2 ^ nat (j - ?e))"
    using e by (simp add: power_int_def)
  finally have q: "?a / 2 powi ?e = of_int (\<bar>m\<bar> * 2 ^ nat (j - ?e))" .
  have y: "of_int (rne (?a / 2 powi ?e)) * 2 powi ?e = ?a"
    unfolding q rne_of_int unfolding q [symmetric] by simp
  have "(2::rat) powi (53 + j) \<le> 2 powi 1024" using j by (intro power_int_increasing) simp_all
  with lt have small: "\<not> 2 powi 1024 \<le> ?a" by simp
  have "sgn ?x * ?a = ?x" by (simp add: sgn_mult_abs)
  with x0 small show ?thesis
    by (simp only: double.simps Let_def y if_False)
qed

lemma double_int: "\<bar>m\<bar> < 2 ^ 53 \<Longrightarrow> double (Num (of_int m)) = Num (of_int m)"
  using double_exact [of m 0] by simp

lemma double_half: "\<bar>m\<bar> < 2 ^ 53 \<Longrightarrow> double (Num (of_int m / 2)) = Num (of_int m / 2)"
  using double_exact [of m "- 1"] by (simp add: power_int_minus field_simps)

lemma double_numeral:
  "(numeral n :: int) < 2 ^ 53 \<Longrightarrow> double (Num (numeral n)) = Num (numeral n)"
  using double_int [of "numeral n"] by simp

lemma double_one_half: "double (Num (1 / 2)) = Num (1 / 2)"
  using double_half [of 1] by simp

section \<open>Resize\<close>

text \<open>
  In the library module, for a source that loads and the selectors \<open>"width"\<close> and \<open>"height"\<close>,
  resize with \<open>preserveAspectRatio\<close> sets the selected dimension to the requested size and
  the other one to \<open>Math.round(other / selected * size)\<close>, on the components of the ratio
  that \<open>utils.simplify\<close> returns for the natural dimensions.
\<close>

lemma resize_sets_dimensions:
  assumes "load host path (truthy (crossOrigin opts)) = Inr (w, h)"
    and "preserveAspectRatio opts"
    and "utils_simplify utils (Num (of_nat w)) (Num (of_nat h)) = Some fr"
  shows "original (resize utils host path ''width'' size' opts) =
          Some \<lparr>width = size',
                height = Math_round (double (js_mul
                           (double (js_div (denominator fr) (numerator fr))) size')),
                src = path\<rparr>"
    and "original (resize utils host path ''height'' size' opts) =
          Some \<lparr>width = Math_round (double (js_mul
                           (double (js_div (numerator fr) (denominator fr))) size')),
                height = size', src = path\<rparr>"
  using assms by (simp_all add: resize_def loaded_def nothing_def Let_def)

text \<open>
  The division and the multiplication round: a \<open>6 \<times> 13\<close> source resized by width to 27
  gets the height 58, where the exact \<open>13 / 6 * 27 = 58.5\<close> would give 59.
\<close>

lemma simplify_6_13: "simplify (Num 6) (Num 13) = Some (Num 6, Num 13)"
  by (simp add: simplify_def gcd_js.simps trunc_def floor_rat_numeral)

lemma round_13_6_27:
  "Math_round (double (js_mul (double (js_div (Num 13) (Num 6))) (Num 27))) = Num 58"
  by code_simp

lemma resize_rounds_in_binary64:
  "original (resize bundled_utils (honest_host (6, 13) (6, 13)) ''img.png'' ''width'' (Num 27)
               \<lparr>autoDownload = False, crossOrigin = None, preserveAspectRatio = True\<rparr>) =
     Some \<lparr>width = Num 27, height = Num 58, src = ''img.png''\<rparr>"
  using resize_sets_dimensions(1)
    [where host = "honest_host (6, 13) (6, 13)" and path = "''img.png''" and w = 6 and h = 13
       and opts = "\<lparr>autoDownload = False, crossOrigin = None, preserveAspectRatio = True\<rparr>"
       and utils = bundled_utils and fr = "\<lparr>numerator = Num 6, denominator = Num 13\<rparr>"
       and size' = "Num 27"]
  by (simp add: simplify_6_13 round_13_6_27 bundled_utils_def truthy_def honest_host_def
      del: js_div.simps js_mul.simps Math_round.simps)

lemma round_1_2_200:
  "Math_round (double (js_mul (double (js_div (Num 1) (Num 2))) (Num 200))) = Num 100"
  by (simp add: double_one_half double_numeral floor_rat_numeral)

text \<open>
  In the class the load listener first evaluates \<open>math.simplify\<close>. With \<open>math\<close> unbound it
  raises a ReferenceError there, whatever the selector: no dimension is set and the promise
  is never settled.
\<close>

lemma Curtail_resize_unbound:
  assumes "load host path (truthy (crossOrigin opts)) = Inr dims"
    and "global_math env = None"
  shows "promise (Curtail_resize env host opts path dimension size' preserve) =
           Some (Threw ''math'')"
    and "original (Curtail_resize env host opts path dimension size' preserve) =
           Some (loaded path dims)"
  using assms by (simp_all add: Curtail_resize_def nothing_def Let_def)

text \<open>Were \<open>math.simplify\<close> bound to the \<open>simplify\<close> of the file, the class would do as the module.\<close>

lemma Curtail_resize_bound:
  assumes "load host path (truthy (crossOrigin opts)) = Inr (w, h)"
    and "global_math env = Some simplify"
  shows "\<exists>n d. simplify (Num (of_nat w)) (Num (of_nat h)) = Some (n, d)
      \<and> promise (Curtail_resize env host opts path ''width'' size' True) =
          Some (Resolved \<lparr>width = size',
                          height = Math_round (double (js_mul (double (js_div d n)) size')),
                          src = path\<rparr>)
      \<and> promise (Curtail_resize env host opts path ''height'' size' True) =
          Some (Resolved \<lparr>width = Math_round (double (js_mul (double (js_div n d)) size')),
                          height = size', src = path\<rparr>)"
proof -
  obtain n d where s: "simplify (Num (of_nat w)) (Num (of_nat h)) = Some (n, d)"
    using simplify_returns by blast
  with assms show ?thesis
    by (simp add: Curtail_resize_def loaded_def nothing_def Let_def)
qed

text \<open>
  C3. For every source image that loads and the selectors \<open>"width"\<close> and \<open>"height"\<close>, resize
  with \<open>preserveAspectRatio\<close> true sets the selected dimension to the requested size and the
  other one to \<open>round(other / selected * size)\<close>; a \<open>100 \<times> 50\<close> source resized by width to 200
  becomes \<open>200 \<times> 100\<close>. The library module does so. In the class of dist/curtail.js the load
  listener raises a ReferenceError on \<open>math\<close>, which the file binds nowhere, before it sets
  anything: the image stays \<open>100 \<times> 50\<close> and the promise pending.
\<close>

theorem Curtail_resize_sets_no_dimension:
  "promise (Curtail_resize unbound (honest_host (100, 50) (100, 50))
              \<lparr>autoDownload = False, crossOrigin = None\<rparr>
              ''img.png'' ''width'' (Num 200) True) =
     Some (Threw ''math'')
   \<and> original (Curtail_resize unbound (honest_host (100, 50) (100, 50))
              \<lparr>autoDownload = False, crossOrigin = None\<rparr>
              ''img.png'' ''width'' (Num 200) True) =
     Some \<lparr>width = Num 100, height = Num 50, src = ''img.png''\<rparr>
   \<and> original (resize bundled_utils (honest_host (100, 50) (100, 50)) ''img.png'' ''width''
              (Num 200) \<lparr>autoDownload = False, crossOrigin = None, preserveAspectRatio = True\<rparr>) =
     Some \<lparr>width = Num 200, height = Num 100, src = ''img.png''\<rparr>
   \<and> promise (resize bundled_utils (honest_host (100, 50) (100, 50)) ''img.png'' ''width''
              (Num 200) \<lparr>autoDownload = False, crossOrigin = None, preserveAspectRatio = True\<rparr>) =
     Some (Resolved \<lparr>width = Num 200, height = Num 100, src = ''img.png''\<rparr>)"
  by (simp add: Curtail_resize_def resize_def unbound_def bundled_utils_def honest_host_def
      truthy_def loaded_def nothing_def Let_def simplify_100_50 round_1_2_200
      del: js_div.simps js_mul.simps Math_round.simps)

text \<open>
  With a selector other than \<open>"width"\<close> and \<open>"height"\<close> no branch of the library module
  touches the image, and the promise resolves with it unless \<open>autoDownload\<close> is set.
\<close>

lemma resize_other_selector:
  assumes "load host path (truthy (crossOrigin opts)) = Inr dims"
    and "utils_simplify utils (Num (of_nat (fst dims))) (Num (of_nat (snd dims))) = Some fr"
    and "dimension \<noteq> ''width''" and "dimension \<noteq> ''height''"
  shows "original (resize utils host path dimension size' opts) = Some (loaded path dims)"
    and "promise (resize utils host path dimension size' opts) =
           Some (if autoDownload opts then Threw ''convertedImage''
                 else Resolved (loaded path dims))"
  using assms by (simp_all add: resize_def loaded_def nothing_def Let_def)

text \<open>
  C10. For every source image that loads and every selector that is neither \<open>"width"\<close> nor
  \<open>"height"\<close>, resize resolves with the image, its width and height unchanged. Both resize
  functions leave the dimensions unchanged, but the promise stays pending: in the library
  module when \<open>autoDownload\<close> is set (a ReferenceError on \<open>convertedImage\<close>), in the class on
  every call (a ReferenceError on \<open>math\<close>).
\<close>

theorem resize_other_selector_pending:
  "promise (resize bundled_utils (honest_host (100, 50) (100, 50)) ''img.png'' ''depth'' (Num 200)
              \<lparr>autoDownload = True, crossOrigin = None, preserveAspectRatio = True\<rparr>) =
     Some (Threw ''convertedImage'')
   \<and> original (resize bundled_utils (honest_host (100, 50) (100, 50)) ''img.png'' ''depth'' (Num 200)
              \<lparr>autoDownload = True, crossOrigin = None, preserveAspectRatio = True\<rparr>) =
     Some \<lparr>width = Num 100, height = Num 50, src = ''img.png''\<rparr>
   \<and> promise (Curtail_resize unbound (honest_host (100, 50) (100, 50))
              \<lparr>autoDownload = False, crossOrigin = None\<rparr> ''img.png'' ''depth'' (Num 200) True) =
     Some (Threw ''math'')
   \<and> original (Curtail_resize unbound (honest_host (100, 50) (100, 50))
              \<lparr>autoDownload = False, crossOrigin = None\<rparr> ''img.png'' ''depth'' (Num 200) True) =
     Some \<lparr>width = Num 100, height = Num 50, src = ''img.png''\<rparr>"
  by (simp add: resize_def Curtail_resize_def unbound_def bundled_utils_def honest_host_def
      truthy_def loaded_def nothing_def Let_def simplify_100_50)

section \<open>Convert\<close>

lemma convert_surface:
  assumes "load host path (truthy (crossOrigin opts)) = Inr dims"
    and "ext (extractFileInfo utils path) \<noteq> format"
  shows "surface (convert utils host path format opts) =
     Some (encoded
       (drawImage
          (if List.member nonTransparentFormats format
           then fillRect (createElement_canvas\<lparr>width := width (loaded path dims),
                  height := height (loaded path dims), fillStyle := ''#FFF''\<rparr>)
                  (Num 0) (Num 0) (width (loaded path dims)) (height (loaded path dims))
           else createElement_canvas\<lparr>width := width (loaded path dims),
                  height := height (loaded path dims)\<rparr>)
          (loaded path dims) [Num 0, Num 0])
       (''image/'' @ format))"
  using assms by (simp add: convert_def Let_def nothing_def split: sum.split)

text \<open>
  In the library module, for every convert call that proceeds and whose source loads, the
  calls on the surface are: a fill of the whole surface with \<open>#FFF\<close> exactly when the target
  format is one of jpg, jpeg, gif and bmp, then the drawing of the source at \<open>(0, 0)\<close>, then
  the encoding.
\<close>

lemma convert_fills_white_without_alpha:
  assumes ld: "load host path (truthy (crossOrigin opts)) = Inr dims"
    and ne: "ext (extractFileInfo utils path) \<noteq> format"
  shows "map_option calls (surface (convert utils host path format opts)) =
     Some ((if format \<in> {''jpg'', ''jpeg'', ''gif'', ''bmp''}
            then [FillRect ''#FFF'' (Num 0) (Num 0)
                    (Num (of_nat (fst dims))) (Num (of_nat (snd dims)))]
            else [])
           @ [DrawImage (loaded path dims) [Num 0, Num 0], ToDataURL (''image/'' @ format)])"
proof -
  have m: "List.member nonTransparentFormats format
             \<longleftrightarrow> format \<in> {''jpg'', ''jpeg'', ''gif'', ''bmp''}"
    by (simp add: nonTransparentFormats_def)
  show ?thesis
    unfolding convert_surface [OF ld ne] m
    by (simp add: fillRect_def drawImage_def encoded_def createElement_canvas_def loaded_def)
qed

text \<open>
  In the class the first statement of convert evaluates \<open>extract.getFileInfo\<close>. With
  \<open>extract\<close> unbound the call raises a ReferenceError there: it returns nothing, warns of
  nothing, and creates neither a canvas nor an image.
\<close>

lemma Curtail_convert_unbound:
  assumes "global_extract env = None"
  shows "Curtail_convert env host opts path fmt = nothing\<lparr>raised := Some ''extract''\<rparr>"
  using assms by (simp add: Curtail_convert_def)

text \<open>
  Were \<open>extract.getFileInfo\<close> bound, the class would fill exactly for the formats of the
  \<open>FORMAT\<close> table that are not transparent: jpg, gif and bmp.
\<close>

lemma FORMAT_transparent:
  "fmt \<in> set FORMAT \<Longrightarrow> transparent fmt \<longleftrightarrow> ext fmt \<notin> {''jpg'', ''jpeg'', ''gif'', ''bmp''}"
  by (auto simp add: FORMAT_def PNG_def JPG_def GIF_def BMP_def WEBP_def PDF_def)

lemma Curtail_convert_bound:
  assumes ld: "load host path (truthy (crossOrigin opts)) = Inr dims"
    and env: "global_extract env = Some f"
    and ne: "ext (f path) \<noteq> ext fmt"
    and t: "fmt \<in> set FORMAT"
  shows "map_option calls (surface (Curtail_convert env host opts path fmt)) =
     Some ((if ext fmt \<in> {''jpg'', ''jpeg'', ''gif'', ''bmp''}
            then [FillRect ''#FFF'' (Num 0) (Num 0)
                    (Num (of_nat (fst dims))) (Num (of_nat (snd dims)))]
            else [])
           @ [DrawImage (loaded path dims) [Num 0, Num 0], ToDataURL (''image/'' @ ext fmt)])"
proof -
  have "surface (Curtail_convert env host opts path fmt) =
     Some (encoded
       (drawImage
          (if \<not> transparent fmt
           then fillRect (createElement_canvas\<lparr>width := width (loaded path dims),
                  height := height (loaded path dims), fillStyle := ''#FFF''\<rparr>)
                  (Num 0) (Num 0) (width (loaded path dims)) (height (loaded path dims))
           else createElement_canvas\<lparr>width := width (loaded path dims),
                  height := height (loaded path dims)\<rparr>)
          (loaded path dims) [Num 0, Num 0])
       (''image/'' @ ext fmt))"
    using ld env ne by (simp add: Curtail_convert_def Let_def nothing_def split: sum.split)
  then show ?thesis
    unfolding FORMAT_transparent [OF t]
    by (simp add: fillRect_def drawImage_def encoded_def createElement_canvas_def loaded_def)
qed

text \<open>
  C4. For every convert call that proceeds, the destination is first filled with opaque
  white before the drawing exactly when the target format is one of jpg, jpeg, gif and bmp.
  The library module does so. In the class of dist/curtail.js a call that converts
  \<open>img.png\<close> to \<open>FORMAT.JPG\<close> raises a ReferenceError on \<open>extract\<close>, which the file binds
  nowhere: there is no surface, no fill and no drawing.
\<close>

theorem Curtail_convert_never_fills:
  "raised (Curtail_convert unbound (honest_host (100, 50) (100, 50))
             \<lparr>autoDownload = False, crossOrigin = None\<rparr> ''img.png'' JPG) = Some ''extract''
   \<and> surface (Curtail_convert unbound (honest_host (100, 50) (100, 50))
             \<lparr>autoDownload = False, crossOrigin = None\<rparr> ''img.png'' JPG) = None
   \<and> promise (Curtail_convert unbound (honest_host (100, 50) (100, 50))
             \<lparr>autoDownload = False, crossOrigin = None\<rparr> ''img.png'' JPG) = None
   \<and> map_option calls
        (surface (convert bundled_utils (honest_host (100, 50) (100, 50)) ''img.png'' ''jpg''
                    \<lparr>autoDownload = False, crossOrigin = None\<rparr>)) =
       Some [FillRect ''#FFF'' (Num 0) (Num 0) (Num 100) (Num 50),
             DrawImage \<lparr>width = Num 100, height = Num 50, src = ''img.png''\<rparr> [Num 0, Num 0],
             ToDataURL ''image/jpg'']"
  by (simp add: Curtail_convert_def convert_def unbound_def bundled_utils_def honest_host_def
      truthy_def loaded_def nothing_def Let_def nonTransparentFormats_def fillRect_def
      drawImage_def encoded_def createElement_canvas_def getFileInfo_def slice_def
      slice_from_def)

text \<open>
  In the library module, when the target format is the extension of the source locator,
  convert returns \<open>undefined\<close>: no promise, no surface, no image requested.
\<close>

lemma convert_same_format_returns_nothing:
  assumes "ext (extractFileInfo utils path) = format"
  shows "convert utils host path format opts = nothing"
  using assms by (simp add: convert_def Let_def)

text \<open>
  C5. When the target format is the extension of the source locator, convert returns no
  result: no promise, nothing that resolves or rejects, no surface. The library module
  returns \<open>undefined\<close>. In the class of dist/curtail.js the call does not return: it raises
  a ReferenceError on \<open>extract\<close>, which the file binds nowhere, before the comparison and the
  console warning.
\<close>

theorem Curtail_convert_same_format_raises:
  "raised (Curtail_convert unbound (honest_host (100, 50) (100, 50))
             \<lparr>autoDownload = False, crossOrigin = None\<rparr> ''folder/img.png'' PNG) = Some ''extract''
   \<and> warnings (Curtail_convert unbound (honest_host (100, 50) (100, 50))
             \<lparr>autoDownload = False, crossOrigin = None\<rparr> ''folder/img.png'' PNG) = []
   \<and> promise (Curtail_convert unbound (honest_host (100, 50) (100, 50))
             \<lparr>autoDownload = False, crossOrigin = None\<rparr> ''folder/img.png'' PNG) = None
   \<and> convert bundled_utils (honest_host (100, 50) (100, 50)) ''folder/img.png'' ''png''
             \<lparr>autoDownload = False, crossOrigin = None\<rparr> =
       \<lparr>promise = None, raised = None, surface = None, original = None, requested = [],
        downloads = [], warnings = []\<rparr>"
  by (simp add: Curtail_convert_def convert_def unbound_def bundled_utils_def nothing_def
      Let_def getFileInfo_def slice_def slice_from_def)

section \<open>Pad\<close>

lemma pad_surface:
  assumes "load host path (truthy (crossOrigin opts)) = Inr dims"
  shows "surface (pad utils host path padding opts) =
     Some (let originalImage = loaded path dims;
               canvas = createElement_canvas
                 \<lparr>width := double (js_add (width originalImage) (double (js_mul padding (Num 2)))),
                  height := double (js_add (height originalImage)
                                      (double (js_mul padding (Num 2))))\<rparr>;
               canvas = (if paddingColor opts \<noteq> ''transparent''
                         then fillRect (canvas\<lparr>fillStyle := paddingColor opts\<rparr>)
                                (Num 0) (Num 0) (width canvas) (height canvas)
                         else canvas)
           in encoded
                (drawImage canvas originalImage
                   [double (js_sub (double (js_div (width canvas) (Num 2)))
                              (double (js_div (width originalImage) (Num 2)))),
                    double (js_sub (double (js_div (height canvas) (Num 2)))
                              (double (js_div (height originalImage) (Num 2)))),
                    width originalImage, height originalImage])
                (''image/'' @ ext (extractFileInfo utils path)))"
  using assms by (simp add: pad_def Let_def nothing_def split: sum.split)

text \<open>
  For an integer padding \<open>k\<close> and a dimension \<open>w\<close> with \<open>w + 2\<bar>k\<bar> < 2^53\<close> no operation of pad
  rounds: the padded dimension is \<open>w + 2k\<close> and the offset of the centred source is \<open>k\<close>.
\<close>

lemma pad_size_exact:
  fixes w :: nat and k :: int
  assumes "int w + 2 * \<bar>k\<bar> < 2 ^ 53"
  shows "double (js_add (Num (of_nat w)) (double (js_mul (Num (of_int k)) (Num 2)))) =
           Num (of_int (int w + 2 * k))"
proof -
  from assms have 1: "\<bar>2 * k\<bar> < 2 ^ 53" and 2: "\<bar>int w + 2 * k\<bar> < 2 ^ 53" by simp_all
  have "double (js_mul (Num (of_int k)) (Num 2)) = double (Num (of_int (2 * k)))"
    by (simp add: mult.commute)
  also have "\<dots> = Num (of_int (2 * k))" by (rule double_int [OF 1])
  finally have m: "double (js_mul (Num (of_int k)) (Num 2)) = Num (of_int (2 * k))" .
  have "js_add (Num (of_nat w)) (Num (of_int (2 * k))) = Num (of_int (int w + 2 * k))"
    by simp
  then show ?thesis
    unfolding m by (simp only: double_int [OF 2])
qed

lemma pad_offset_exact:
  fixes w :: nat and k :: int
  assumes "int w + 2 * \<bar>k\<bar> < 2 ^ 53"
  shows "double (js_sub (double (js_div (Num (of_int (int w + 2 * k))) (Num 2)))
                   (double (js_div (Num (of_nat w)) (Num 2)))) = Num (of_int k)"
proof -
  from assms have 1: "\<bar>int w + 2 * k\<bar> < 2 ^ 53" and 2: "\<bar>int w\<bar> < 2 ^ 53"
    and 3: "\<bar>k\<bar> < 2 ^ 53" by simp_all
  have a: "double (js_div (Num (of_int (int w + 2 * k))) (Num 2)) =
           Num (of_int (int w + 2 * k) / 2)"
    using double_half [OF 1] by simp
  have b: "double (js_div (Num (of_nat w)) (Num 2)) = Num (of_int (int w) / 2)"
    using double_half [OF 2] by simp
  have "js_sub (Num (of_int (int w + 2 * k) / 2)) (Num (of_int (int w) / 2)) = Num (of_int k)"
    by (simp add: diff_divide_distrib [symmetric])
  then show ?thesis
    unfolding a b by (simp only: double_int [OF 3])
qed

text \<open>
  C6. For a source of \<open>w \<times> h\<close> that loads and a padding \<open>p\<close>, the surface of pad is
  \<open>(w + 2p) \<times> (h + 2p)\<close>; it is filled whole with \<open>paddingColor\<close> first exactly when that is
  not \<open>'transparent'\<close>; the source is drawn at
  \<open>(surface width / 2 - w / 2, surface height / 2 - h / 2)\<close>; and the result is the image
  the host decodes from the encoding of that surface. Every operation is one of binary64
  arithmetic; for an integer padding \<open>k\<close> with \<open>w + 2\<bar>k\<bar>\<close> and \<open>h + 2\<bar>k\<bar>\<close> below \<open>2^53\<close> the
  surface is exactly \<open>(w + 2k) \<times> (h + 2k)\<close> and the offset exactly \<open>(k, k)\<close>.
\<close>

theorem pad_surface_and_centering:
  assumes ld: "load host path (truthy (crossOrigin opts)) = Inr (w, h)"
  shows "\<exists>c. surface (pad utils host path padding opts) = Some c
     \<and> width c = double (js_add (Num (of_nat w)) (double (js_mul padding (Num 2))))
     \<and> height c = double (js_add (Num (of_nat h)) (double (js_mul padding (Num 2))))
     \<and> calls c =
         (if paddingColor opts \<noteq> ''transparent''
          then [FillRect (paddingColor opts) (Num 0) (Num 0) (width c) (height c)] else [])
         @ [DrawImage (loaded path (w, h))
              [double (js_sub (double (js_div (width c) (Num 2)))
                         (double (js_div (Num (of_nat w)) (Num 2)))),
               double (js_sub (double (js_div (height c) (Num 2)))
                         (double (js_div (Num (of_nat h)) (Num 2)))),
               Num (of_nat w), Num (of_nat h)],
            ToDataURL (''image/'' @ ext (extractFileInfo utils path))]
     \<and> (\<forall>k. padding = Num (of_int k) \<and> int w + 2 * \<bar>k\<bar> < 2 ^ 53 \<and> int h + 2 * \<bar>k\<bar> < 2 ^ 53 \<longrightarrow>
           width c = Num (of_int (int w + 2 * k)) \<and> height c = Num (of_int (int h + 2 * k))
           \<and> double (js_sub (double (js_div (width c) (Num 2)))
                        (double (js_div (Num (of_nat w)) (Num 2)))) = Num (of_int k)
           \<and> double (js_sub (double (js_div (height c) (Num 2)))
                        (double (js_div (Num (of_nat h)) (Num 2)))) = Num (of_int k))
     \<and> (\<exists>url. requested (pad utils host path padding opts) = [path, url]
           \<and> url = toDataURL host (c\<lparr>calls := butlast (calls c)\<rparr>)
                     (''image/'' @ ext (extractFileInfo utils path))
           \<and> (\<forall>dims'. load host url None = Inr dims' \<and> \<not> autoDownload opts \<longrightarrow>
                 promise (pad utils host path padding opts) = Some (Resolved (loaded url dims'))))"
proof -
  let ?c = "the (surface (pad utils host path padding opts))"
  have c: "surface (pad utils host path padding opts) = Some ?c"
    by (simp add: pad_surface [OF ld])
  have 1: "width ?c = double (js_add (Num (of_nat w)) (double (js_mul padding (Num 2))))"
    and 2: "height ?c = double (js_add (Num (of_nat h)) (double (js_mul padding (Num 2))))"
    by (simp_all add: pad_surface [OF ld] Let_def fillRect_def drawImage_def encoded_def
        createElement_canvas_def loaded_def)
  have 3: "calls ?c =
         (if paddingColor opts \<noteq> ''transparent''
          then [FillRect (paddingColor opts) (Num 0) (Num 0) (width ?c) (height ?c)] else [])
         @ [DrawImage (loaded path (w, h))
              [double (js_sub (double (js_div (width ?c) (Num 2)))
                         (double (js_div (Num (of_nat w)) (Num 2)))),
               double (js_sub (double (js_div (height ?c) (Num 2)))
                         (double (js_div (Num (of_nat h)) (Num 2)))),
               Num (of_nat w), Num (of_nat h)],
            ToDataURL (''image/'' @ ext (extractFileInfo utils path))]"
    by (simp add: pad_surface [OF ld] Let_def fillRect_def drawImage_def encoded_def
        createElement_canvas_def loaded_def)
  have 4: "\<forall>k. padding = Num (of_int k) \<and> int w + 2 * \<bar>k\<bar> < 2 ^ 53 \<and> int h + 2 * \<bar>k\<bar> < 2 ^ 53 \<longrightarrow>
           width ?c = Num (of_int (int w + 2 * k)) \<and> height ?c = Num (of_int (int h + 2 * k))
           \<and> double (js_sub (double (js_div (width ?c) (Num 2)))
                        (double (js_div (Num (of_nat w)) (Num 2)))) = Num (of_int k)
           \<and> double (js_sub (double (js_div (height ?c) (Num 2)))
                        (double (js_div (Num (of_nat h)) (Num 2)))) = Num (of_int k)"
  proof (intro allI impI, elim conjE)
    fix k
    assume p: "padding = Num (of_int k)"
      and w: "int w + 2 * \<bar>k\<bar> < 2 ^ 53" and h: "int h + 2 * \<bar>k\<bar> < 2 ^ 53"
    have "width ?c = double (js_add (Num (of_nat w)) (double (js_mul padding (Num 2))))"
      by (rule 1)
    also have "\<dots> = Num (of_int (int w + 2 * k))"
      unfolding p by (rule pad_size_exact [OF w])
    finally have ww: "width ?c = Num (of_int (int w + 2 * k))" .
    have "height ?c = double (js_add (Num (of_nat h)) (double (js_mul padding (Num 2))))"
      by (rule 2)
    also have "\<dots> = Num (of_int (int h + 2 * k))"
      unfolding p by (rule pad_size_exact [OF h])
    finally have hh: "height ?c = Num (of_int (int h + 2 * k))" .
    show "width ?c = Num (of_int (int w + 2 * k)) \<and> height ?c = Num (of_int (int h + 2 * k))
           \<and> double (js_sub (double (js_div (width ?c) (Num 2)))
                        (double (js_div (Num (of_nat w)) (Num 2)))) = Num (of_int k)
           \<and> double (js_sub (double (js_div (height ?c) (Num 2)))
                        (double (js_div (Num (of_nat h)) (Num 2)))) = Num (of_int k)"
      unfolding ww hh
      by (simp only: pad_offset_exact [OF w] pad_offset_exact [OF h] simp_thms)
  qed
  have 5: "\<exists>url. requested (pad utils host path padding opts) = [path, url]
           \<and> url = toDataURL host (?c\<lparr>calls := butlast (calls ?c)\<rparr>)
                     (''image/'' @ ext (extractFileInfo utils path))
           \<and> (\<forall>dims'. load host url None = Inr dims' \<and> \<not> autoDownload opts \<longrightarrow>
                 promise (pad utils host path padding opts) = Some (Resolved (loaded url dims')))"
    using ld
    by (simp add: pad_def Let_def nothing_def fillRect_def drawImage_def encoded_def
        createElement_canvas_def loaded_def split: sum.split)
  from c 1 2 3 4 5 show ?thesis by blast
qed

text \<open>Padding a \<open>100 \<times> 100\<close> source by 10: a \<open>120 \<times> 120\<close> surface, the source at \<open>(10, 10)\<close>.\<close>

theorem pad_surface_and_centering_witness:
  "\<exists>c. surface (pad bundled_utils (honest_host (100, 100) (120, 120)) ''img.png'' (Num 10)
              \<lparr>autoDownload = False, crossOrigin = None, paddingColor = ''transparent''\<rparr>) = Some c
     \<and> width c = Num 120 \<and> height c = Num 120
     \<and> calls c = [DrawImage \<lparr>width = Num 100, height = Num 100, src = ''img.png''\<rparr>
                     [Num 10, Num 10, Num 100, Num 100],
                   ToDataURL ''image/png'']
     \<and> promise (pad bundled_utils (honest_host (100, 100) (120, 120)) ''img.png'' (Num 10)
              \<lparr>autoDownload = False, crossOrigin = None, paddingColor = ''transparent''\<rparr>) =
         Some (Resolved \<lparr>width = Num 120, height = Num 120,
                          src = ''data:image/png;base64,AAAA''\<rparr>)"
proof -
  let ?H = "honest_host (100, 100) (120, 120)"
  let ?O = "\<lparr>autoDownload = False, crossOrigin = None, paddingColor = ''transparent''\<rparr>"
  have ld: "load ?H ''img.png'' (truthy (crossOrigin ?O)) = Inr (100, 100)"
    by (simp add: honest_host_def)
  from pad_surface_and_centering [OF ld, of bundled_utils "Num 10"]
  obtain c url where s: "surface (pad bundled_utils ?H ''img.png'' (Num 10) ?O) = Some c"
    and cs: "calls c =
         (if paddingColor ?O \<noteq> ''transparent''
          then [FillRect (paddingColor ?O) (Num 0) (Num 0) (width c) (height c)] else [])
         @ [DrawImage (loaded ''img.png'' (100, 100))
              [double (js_sub (double (js_div (width c) (Num 2)))
                         (double (js_div (Num (of_nat 100)) (Num 2)))),
               double (js_sub (double (js_div (height c) (Num 2)))
                         (double (js_div (Num (of_nat 100)) (Num 2)))),
               Num (of_nat 100), Num (of_nat 100)],
            ToDataURL (''image/'' @ ext (extractFileInfo bundled_utils ''img.png''))]"
    and ex: "\<forall>k. Num 10 = Num (of_int k) \<and> int 100 + 2 * \<bar>k\<bar> < 2 ^ 53
                 \<and> int 100 + 2 * \<bar>k\<bar> < 2 ^ 53 \<longrightarrow>
           width c = Num (of_int (int 100 + 2 * k)) \<and> height c = Num (of_int (int 100 + 2 * k))
           \<and> double (js_sub (double (js_div (width c) (Num 2)))
                        (double (js_div (Num (of_nat 100)) (Num 2)))) = Num (of_int k)
           \<and> double (js_sub (double (js_div (height c) (Num 2)))
                        (double (js_div (Num (of_nat 100)) (Num 2)))) = Num (of_int k)"
    and url: "url = toDataURL ?H (c\<lparr>calls := butlast (calls c)\<rparr>)
                     (''image/'' @ ext (extractFileInfo bundled_utils ''img.png''))"
    and pr: "\<forall>dims'. load ?H url None = Inr dims' \<and> \<not> autoDownload ?O \<longrightarrow>
                 promise (pad bundled_utils ?H ''img.png'' (Num 10) ?O) =
                   Some (Resolved (loaded url dims'))"
    by blast
  have "Num 10 = Num (of_int 10) \<and> int 100 + 2 * \<bar>10\<bar> < 2 ^ 53
          \<and> int 100 + 2 * \<bar>10\<bar> < 2 ^ 53"
    by simp
  from ex [rule_format, OF this]
  have w0: "width c = Num (of_int (int 100 + 2 * 10))"
    and h0: "height c = Num (of_int (int 100 + 2 * 10))"
    and ox: "double (js_sub (double (js_div (width c) (Num 2)))
                        (double (js_div (Num (of_nat 100)) (Num 2)))) = Num (of_int 10)"
    and oy: "double (js_sub (double (js_div (height c) (Num 2)))
                        (double (js_div (Num (of_nat 100)) (Num 2)))) = Num (of_int 10)"
    by blast+
  from w0 h0 have w: "width c = Num 120" and h: "height c = Num 120"
    by simp_all
  have e: "ext (extractFileInfo bundled_utils ''img.png'') = ''png''"
    by (simp add: bundled_utils_def getFileInfo_def slice_def slice_from_def)
  have u: "url = ''data:image/png;base64,AAAA''"
    unfolding url e by (simp add: honest_host_def)
  have "load ?H url None = Inr (120, 120)" unfolding u by (simp add: honest_host_def)
  with pr have p: "promise (pad bundled_utils ?H ''img.png'' (Num 10) ?O) =
                   Some (Resolved (loaded url (120, 120)))"
    by simp
  have c': "calls c = [DrawImage \<lparr>width = Num 100, height = Num 100, src = ''img.png''\<rparr>
                     [Num 10, Num 10, Num 100, Num 100], ToDataURL ''image/png'']"
    unfolding cs ox oy e by (simp add: loaded_def)
  from s w h c' p show ?thesis
    unfolding u by (simp add: loaded_def)
qed

section \<open>Crop\<close>

lemma Curtail_crop_requested:
  assumes "load host path (truthy (crossOrigin opts)) = Inr dims"
  shows "requested (Curtail_crop host opts path x y w h) =
     [path,
      replace (toDataURL host
                 (drawImage (createElement_canvas\<lparr>width := w, height := h\<rparr>) (loaded path dims)
                    [x, y, w, h, Num 0, Num 0, w, h])
                 (''image/'' @ ext (getFileInfo path)))
        (''image/'' @ ext (getFileInfo path)) ''image/octet-stream'']"
    and "surface (Curtail_crop host opts path x y w h) =
     Some (encoded
             (drawImage (createElement_canvas\<lparr>width := w, height := h\<rparr>) (loaded path dims)
                [x, y, w, h, Num 0, Num 0, w, h])
             (''image/'' @ ext (getFileInfo path)))"
  using assms
  by (simp_all add: Curtail_crop_def getFileInfo_def Let_def nothing_def split: sum.split)

lemma crop_requested:
  assumes "load host path (truthy (crossOrigin opts)) = Inr dims"
  shows "requested (crop utils host path x y w h opts) =
     [path,
      replace (toDataURL host
                 (drawImage (createElement_canvas\<lparr>width := w, height := h\<rparr>) (loaded path dims)
                    [x, y, w, h, Num 0, Num 0, w, h])
                 (''image/'' @ ext (extractFileInfo utils path)))
        (''image/'' @ ext (extractFileInfo utils path)) ''image/octet-stream'']"
    and "surface (crop utils host path x y w h opts) =
     Some (encoded
             (drawImage (createElement_canvas\<lparr>width := w, height := h\<rparr>) (loaded path dims)
                [x, y, w, h, Num 0, Num 0, w, h])
             (''image/'' @ ext (extractFileInfo utils path)))"
  using assms
  by (simp_all add: crop_def Let_def nothing_def split: sum.split)

text \<open>
  C7, as stated: for every crop call the declared type of the resulting data URI is replaced
  by \<open>image/octet-stream\<close>. The code replaces the first occurrence of the type it asked for.
  For \<open>photo.jpg\<close> it asks for \<open>image/jpg\<close>, which no encoder knows; a host that falls back
  to PNG answers \<open>data:image/png;...\<close>, nothing is replaced and the declared type stays
  \<open>image/png\<close>.
\<close>

theorem crop_declared_type_counterexample:
  "requested (Curtail_crop (png_fallback_host (100, 100)) \<lparr>autoDownload = False, crossOrigin = None\<rparr>
               ''photo.jpg'' (Num 0) (Num 0) (Num 50) (Num 50)) =
     [''photo.jpg'', ''data:image/png;base64,AAAA'']
   \<and> requested (crop bundled_utils (png_fallback_host (100, 100))
               ''photo.jpg'' (Num 0) (Num 0) (Num 50) (Num 50)
               \<lparr>autoDownload = False, crossOrigin = None\<rparr>) =
     [''photo.jpg'', ''data:image/png;base64,AAAA'']
   \<and> \<not> prefix ''data:image/octet-stream''
         (last (requested (Curtail_crop (png_fallback_host (100, 100))
                  \<lparr>autoDownload = False, crossOrigin = None\<rparr>
                  ''photo.jpg'' (Num 0) (Num 0) (Num 50) (Num 50))))"
  by (simp add: Curtail_crop_def crop_def png_fallback_host_def bundled_utils_def truthy_def
      Let_def nothing_def getFileInfo_def slice_def slice_from_def)

text \<open>
  C7, amended: for every crop call whose source loads, the surface is encoded with
  \<open>'image/'\<close> followed by the extension of the source as the requested type, and the data
  URI of the result is the one the host returns with the first occurrence of that requested
  type replaced by \<open>image/octet-stream\<close>; when the host returns \<open>data:\<close>, the requested type
  and a rest, the data URI of the result is \<open>data:image/octet-stream\<close> and that rest.
\<close>

theorem crop_replaces_requested_type:
  assumes ld: "load host path (truthy (crossOrigin opts)) = Inr dims"
  shows "(let c = drawImage (createElement_canvas\<lparr>width := w, height := h\<rparr>) (loaded path dims)
                    [x, y, w, h, Num 0, Num 0, w, h];
              t = ''image/'' @ ext (getFileInfo path);
              t' = ''image/'' @ ext (extractFileInfo utils path)
          in surface (Curtail_crop host opts path x y w h) = Some (encoded c t)
           \<and> requested (Curtail_crop host opts path x y w h) =
               [path, replace (toDataURL host c t) t ''image/octet-stream'']
           \<and> (\<forall>rest. toDataURL host c t = ''data:'' @ t @ rest \<longrightarrow>
                 requested (Curtail_crop host opts path x y w h) =
                   [path, ''data:image/octet-stream'' @ rest])
           \<and> surface (crop utils host path x y w h opts) = Some (encoded c t')
           \<and> requested (crop utils host path x y w h opts) =
               [path, replace (toDataURL host c t') t' ''image/octet-stream'']
           \<and> (\<forall>rest. toDataURL host c t' = ''data:'' @ t' @ rest \<longrightarrow>
                 requested (crop utils host path x y w h opts) =
                   [path, ''data:image/octet-stream'' @ rest]))"
  unfolding Let_def Curtail_crop_requested [OF ld] crop_requested [OF ld]
  by simp

theorem crop_replaces_requested_type_witness:
  "requested (Curtail_crop (honest_host (100, 100) (50, 50)) \<lparr>autoDownload = False, crossOrigin = None\<rparr>
               ''img.png'' (Num 10) (Num 10) (Num 50) (Num 50)) =
     [''img.png'', ''data:image/octet-stream;base64,AAAA'']
   \<and> requested (crop bundled_utils (honest_host (100, 100) (50, 50))
               ''img.png'' (Num 10) (Num 10) (Num 50) (Num 50)
               \<lparr>autoDownload = False, crossOrigin = None\<rparr>) =
     [''img.png'', ''data:image/octet-stream;base64,AAAA'']"
  using crop_replaces_requested_type
    [where host = "honest_host (100, 100) (50, 50)" and path = "''img.png''"
       and opts = "\<lparr>autoDownload = False, crossOrigin = None\<rparr>" and dims = "(100, 100)"
       and utils = bundled_utils and x = "Num 10" and y = "Num 10" and w = "Num 50" and h = "Num 50"]
  by (simp add: honest_host_def truthy_def bundled_utils_def Let_def
      getFileInfo_def slice_def slice_from_def)

text \<open>
  The requested type is replaced wherever it first occurs: for \<open>x.pn\<close> the code asks for
  \<open>image/pn\<close>, and in the \<open>data:image/png;...\<close> of a host that falls back to PNG it replaces
  the first eight characters of \<open>image/png\<close>.
\<close>

lemma crop_replaces_first_occurrence:
  "requested (Curtail_crop (png_fallback_host (100, 100)) \<lparr>autoDownload = False, crossOrigin = None\<rparr>
               ''x.pn'' (Num 0) (Num 0) (Num 50) (Num 50)) =
     [''x.pn'', ''data:image/octet-streamg;base64,AAAA'']"
  by (simp add: Curtail_crop_def png_fallback_host_def truthy_def Let_def nothing_def
      slice_def slice_from_def)

section \<open>Load failures\<close>

text \<open>
  A source image that fails to load rejects the promise of every operation that starts a
  load, with the error object of the host. (With \<open>extract\<close> unbound, convert of the class
  starts none.)
\<close>

lemma source_error_rejects:
  assumes "load host path (truthy (crossOrigin opts)) = Inl err"
  shows "promise (Curtail_crop host opts path x y w h) = Some (Rejected err)"
    and "promise (Curtail_resize env host opts path dimension size' preserve) =
           Some (Rejected err)"
  using assms
  by (simp_all add: Curtail_crop_def Curtail_resize_def Let_def nothing_def)

lemma source_error_rejects_module:
  assumes "load host path (truthy (crossOrigin opts)) = Inl err"
  shows "promise (crop utils host path x y w h opts) = Some (Rejected err)"
    and "ext (extractFileInfo utils path) \<noteq> format \<Longrightarrow>
         promise (convert utils host path format opts) = Some (Rejected err)"
  using assms
  by (simp_all add: crop_def convert_def Let_def nothing_def)

lemma source_error_rejects_resize:
  assumes "load host path (truthy (crossOrigin opts)) = Inl err"
  shows "promise (resize utils host path dimension size' opts) = Some (Rejected err)"
  using assms by (simp add: resize_def Let_def nothing_def)

lemma source_error_rejects_pad:
  assumes "load host path (truthy (crossOrigin opts)) = Inl err"
  shows "promise (pad utils host path padding opts) = Some (Rejected err)"
  using assms by (simp add: pad_def Let_def nothing_def)

text \<open>
  So does a result image that fails to load, in crop of the class and in convert and pad of
  the library module; in crop of the library module the error listener raises a
  ReferenceError instead.
\<close>

lemma result_error_rejects:
  assumes "load host path (truthy (crossOrigin opts)) = Inr dims"
    and "load host (last (requested (Curtail_crop host opts path x y w h))) None = Inl err"
  shows "promise (Curtail_crop host opts path x y w h) = Some (Rejected err)"
  using assms
  by (auto simp add: Curtail_crop_def Let_def nothing_def split: sum.splits if_splits)

lemma result_error_rejects_convert:
  assumes "load host path (truthy (crossOrigin opts)) = Inr dims"
    and "ext (extractFileInfo utils path) \<noteq> format"
    and "load host (last (requested (convert utils host path format opts))) None = Inl err"
  shows "promise (convert utils host path format opts) = Some (Rejected err)"
  using assms by (auto simp add: convert_def Let_def nothing_def split: sum.splits if_splits)

lemma result_error_rejects_pad:
  assumes "load host path (truthy (crossOrigin opts)) = Inr dims"
    and "load host (last (requested (pad utils host path padding opts))) None = Inl err"
  shows "promise (pad utils host path padding opts) = Some (Rejected err)"
  using assms by (auto simp add: pad_def Let_def nothing_def split: sum.splits if_splits)

lemma result_error_throws_crop:
  assumes "load host path (truthy (crossOrigin opts)) = Inr dims"
    and "load host (last (requested (crop utils host path x y w h opts))) None = Inl err"
  shows "promise (crop utils host path x y w h opts) = Some (Threw ''loadCroppedImage'')"
  using assms by (simp add: crop_def Let_def nothing_def split: sum.splits)

text \<open>
  C9. The claim has every load failure reject the promise with the error object of the
  host. Cropping to \<open>0 \<times> 0\<close> gives a data URI that fails to load: the class rejects with the
  error, crop of the library module leaves its promise pending.
\<close>

theorem crop_result_error_never_rejects:
  "promise (crop bundled_utils (undecodable_host (100, 100)) ''img.png''
              (Num 0) (Num 0) (Num 0) (Num 0) \<lparr>autoDownload = False, crossOrigin = None\<rparr>) =
     Some (Threw ''loadCroppedImage'')
   \<and> promise (Curtail_crop (undecodable_host (100, 100))
              \<lparr>autoDownload = False, crossOrigin = None\<rparr> ''img.png''
              (Num 0) (Num 0) (Num 0) (Num 0)) =
     Some (Rejected ''error event'')"
  by (simp add: crop_def Curtail_crop_def undecodable_host_def bundled_utils_def truthy_def
      Let_def nothing_def)

end
